theory Spec2Isabelle
  imports Complex_Main
begin

section \<open>Python exceptions as values\<close>

text \<open>
  The loader \<^verbatim>\<open>load_solps_from_balance\<close> of \<^verbatim>\<open>cherab/solps/formats/balance.py\<close>
  never catches an exception, so every exception raised inside it ends the call.  The
  model returns \<open>Inl e\<close> for an exception \<open>e\<close> and \<open>Inr v\<close> for a value.
  \<^item> \<open>OSError p\<close>: \<^verbatim>\<open>netcdf.netcdf_file(p, 'r')\<close> cannot open \<open>p\<close>;
  \<^item> \<open>KeyError n\<close>: \<^verbatim>\<open>fhandle.variables[n]\<close> with no variable \<open>n\<close>;
  \<^item> \<open>SpeciesKeyError zn am\<close>: the \<^verbatim>\<open>KeyError\<close> of \<^verbatim>\<open>_popular_species[(zn, am)]\<close>;
  \<^item> \<open>UnboundLocalError v\<close>: the local variable \<open>v\<close> is read before any assignment to it;
  \<^item> \<open>IndexError\<close>, \<open>AxisError\<close>, \<open>ValueError\<close>, \<open>TypeError\<close>: raised by numpy for an index
    out of bounds or too many indices, an axis the array does not have, shapes that do not
    broadcast, and \<^verbatim>\<open>len\<close>, \<^verbatim>\<open>float\<close> or \<^verbatim>\<open>int\<close> of an array that is not of the right kind;
  \<^item> \<open>RuntimeError m\<close>: the exception object that line 58 builds;
  \<^item> \<open>MeshConstructionError\<close>: raised by the mesh collaborator, which is not part of the loader.
\<close>

datatype error =
    OSError string
  | KeyError string
  | SpeciesKeyError int rat
  | UnboundLocalError string
  | IndexError
  | AxisError
  | ValueError
  | TypeError
  | RuntimeError string
  | MeshConstructionError

definition bindE :: "error + 'a \<Rightarrow> ('a \<Rightarrow> error + 'b) \<Rightarrow> error + 'b" where
  "bindE m k = (case m of Inl e \<Rightarrow> Inl e | Inr x \<Rightarrow> k x)"

section \<open>numpy arrays\<close>

text \<open>
  An array is its shape and its elements, read by a full index (one number per axis).
  The loader works on deep copies and on freshly computed arrays, so arrays are values here
  and no array shares memory with the file.

  The numbers in the file are finite and are modelled as exact rationals (\<open>ndarray\<close>); sums
  and products of them are exact, so rounding and overflow are not modelled.  The loader
  divides by the cell volumes, which come from the file and may be zero.  With numpy's
  default settings such a division does not raise: it warns and gives an infinity or NaN.
  The results of these divisions, and everything computed from them, are therefore
  doubles with the two infinities and NaN, under the IEEE rules for them.  Zero has no
  sign in the model.
\<close>

record 'a array =
  shape :: "nat list"
  elem :: "nat list \<Rightarrow> 'a"

type_synonym ndarray = "rat array"

datatype double = Number rat | PInf | NInf | NaN

text \<open>\<open>x / y\<close> for two finite numbers.\<close>

definition div_double :: "rat \<Rightarrow> rat \<Rightarrow> double" where
  "div_double x y =
     (if y \<noteq> 0 then Number (x / y)
      else if 0 < x then PInf else if x < 0 then NInf else NaN)"

text \<open>\<open>c * x\<close> for a finite scalar \<open>c\<close>.\<close>

fun mul_scalar :: "rat \<Rightarrow> double \<Rightarrow> double" where
  "mul_scalar c (Number x) = Number (c * x)"
| "mul_scalar c PInf = (if 0 < c then PInf else if c < 0 then NInf else NaN)"
| "mul_scalar c NInf = (if 0 < c then NInf else if c < 0 then PInf else NaN)"
| "mul_scalar c NaN = NaN"

fun neg_double :: "double \<Rightarrow> double" where
  "neg_double (Number x) = Number (- x)"
| "neg_double PInf = NInf"
| "neg_double NInf = PInf"
| "neg_double NaN = NaN"

fun add_double :: "double \<Rightarrow> double \<Rightarrow> double" where
  "add_double (Number x) (Number y) = Number (x + y)"
| "add_double NaN y = NaN"
| "add_double x NaN = NaN"
| "add_double PInf NInf = NaN"
| "add_double NInf PInf = NaN"
| "add_double PInf y = PInf"
| "add_double NInf y = NInf"
| "add_double (Number x) y = y"

definition sub_double :: "double \<Rightarrow> double \<Rightarrow> double" where
  "sub_double x y = add_double x (neg_double y)"

fun abs_double :: "double \<Rightarrow> double" where
  "abs_double (Number x) = Number \<bar>x\<bar>"
| "abs_double PInf = PInf"
| "abs_double NInf = PInf"
| "abs_double NaN = NaN"

text \<open>\<open>x >= 0\<close>, which is false for NaN.\<close>

fun nonneg_double :: "double \<Rightarrow> bool" where
  "nonneg_double (Number x) = (0 \<le> x)"
| "nonneg_double PInf = True"
| "nonneg_double NInf = False"
| "nonneg_double NaN = False"

definition ndim :: "'a array \<Rightarrow> nat" where
  "ndim a = length (shape a)"

definition swap_list :: "nat \<Rightarrow> nat \<Rightarrow> 'a list \<Rightarrow> 'a list" where
  "swap_list i j xs =
     (if i < length xs \<and> j < length xs then xs[i := xs ! j, j := xs ! i] else xs)"

text \<open>\<^verbatim>\<open>swapaxes(a, i, j)\<close>: the element of the result at an index is the element of \<open>a\<close> at
  that index with positions \<open>i\<close> and \<open>j\<close> exchanged.\<close>

definition swapaxes :: "ndarray \<Rightarrow> nat \<Rightarrow> nat \<Rightarrow> error + ndarray" where
  "swapaxes a i j =
     (if i < ndim a \<and> j < ndim a
      then Inr \<lparr>shape = swap_list i j (shape a), elem = (\<lambda>idx. elem a (swap_list i j idx))\<rparr>
      else Inl AxisError)"

text \<open>The two lines \<^verbatim>\<open>x = swapaxes(x,0,2); x = swapaxes(x,0,1)\<close>, applied by the loader to
  \<^verbatim>\<open>crx\<close>, \<^verbatim>\<open>cry\<close> and \<^verbatim>\<open>na\<close>.\<close>

definition rearrange :: "ndarray \<Rightarrow> error + ndarray" where
  "rearrange a = bindE (swapaxes a 0 2) (\<lambda>b. swapaxes b 0 1)"

text \<open>The two swaps undone in the opposite order.\<close>

definition rearrange_inverse :: "ndarray \<Rightarrow> error + ndarray" where
  "rearrange_inverse a = bindE (swapaxes a 0 1) (\<lambda>b. swapaxes b 0 2)"

text \<open>Elementwise application, as in \<^verbatim>\<open>abs(a)\<close>, \<^verbatim>\<open>a/Q\<close> or \<^verbatim>\<open>13.6*a*Q\<close> with scalars.\<close>

definition map_array :: "('a \<Rightarrow> 'b) \<Rightarrow> 'a array \<Rightarrow> 'b array" where
  "map_array g a = \<lparr>shape = shape a, elem = (\<lambda>idx. g (elem a idx))\<rparr>"

definition np_abs :: "double array \<Rightarrow> double array" where
  "np_abs a = map_array abs_double a"

definition ones :: "nat \<Rightarrow> ndarray" where
  "ones n = \<lparr>shape = [n], elem = (\<lambda>idx. 1)\<rparr>"

text \<open>\<^verbatim>\<open>sum(a, axis=0)\<close>: the leading axis is summed away; an array without axes has no axis 0.\<close>

definition sum_axis0 :: "ndarray \<Rightarrow> error + ndarray" where
  "sum_axis0 a =
     (case shape a of
        [] \<Rightarrow> Inl AxisError
      | n # s \<Rightarrow> Inr \<lparr>shape = s, elem = (\<lambda>idx. sum_list (map (\<lambda>k. elem a (k # idx)) [0..<n]))\<rparr>)"

text \<open>
  Broadcasting of the two operands of \<^verbatim>\<open>+\<close>, \<^verbatim>\<open>-\<close> and \<^verbatim>\<open>/\<close>: the shapes are aligned at
  their last axis; two lengths fit when they are equal or one of them is 1; a missing
  leading axis counts as 1.  \<open>broadcast_rev\<close> works on the reversed shapes.
\<close>

fun broadcast_rev :: "nat list \<Rightarrow> nat list \<Rightarrow> nat list option" where
  "broadcast_rev [] ys = Some ys"
| "broadcast_rev (x # xs) [] = Some (x # xs)"
| "broadcast_rev (x # xs) (y # ys) =
     (if x = y \<or> y = 1 then map_option (Cons x) (broadcast_rev xs ys)
      else if x = 1 then map_option (Cons y) (broadcast_rev xs ys)
      else None)"

definition broadcast_shapes :: "nat list \<Rightarrow> nat list \<Rightarrow> nat list option" where
  "broadcast_shapes sa sb = map_option rev (broadcast_rev (rev sa) (rev sb))"

text \<open>The index into an operand of shape \<open>s\<close> that belongs to the index \<open>idx\<close> of the
  broadcast result: the trailing \<open>length s\<close> positions, with 0 on every axis of length 1.\<close>

definition bindex :: "nat list \<Rightarrow> nat list \<Rightarrow> nat list" where
  "bindex s idx = map2 (\<lambda>d i. if d = 1 then 0 else i) s (drop (length idx - length s) idx)"

definition binop :: "('a \<Rightarrow> 'b \<Rightarrow> 'c) \<Rightarrow> 'a array \<Rightarrow> 'b array \<Rightarrow> error + 'c array" where
  "binop g a b =
     (case broadcast_shapes (shape a) (shape b) of
        None \<Rightarrow> Inl ValueError
      | Some s \<Rightarrow>
          Inr \<lparr>shape = s,
               elem = (\<lambda>idx. g (elem a (bindex (shape a) idx)) (elem b (bindex (shape b) idx)))\<rparr>)"

text \<open>\<^verbatim>\<open>a[0,:,0:-2]\<close>: the first entry of the leading axis, and the last axis without its last
  two entries (none are left when it has fewer than two).\<close>

definition crop_first :: "ndarray \<Rightarrow> error + ndarray" where
  "crop_first a =
     (case shape a of
        n0 # n1 # n2 # s \<Rightarrow>
          if 0 < n0 then Inr \<lparr>shape = n1 # (n2 - 2) # s, elem = (\<lambda>idx. elem a (0 # idx))\<rparr>
          else Inl IndexError
      | _ \<Rightarrow> Inl IndexError)"

text \<open>\<^verbatim>\<open>a[1,:,:]\<close>: the second entry of the leading axis.\<close>

definition second_entry :: "ndarray \<Rightarrow> error + ndarray" where
  "second_entry a =
     (case shape a of
        n0 # n1 # n2 # s \<Rightarrow>
          if 1 < n0 then Inr \<lparr>shape = n1 # n2 # s, elem = (\<lambda>idx. elem a (1 # idx))\<rparr>
          else Inl IndexError
      | _ \<Rightarrow> Inl IndexError)"

text \<open>
  \<^verbatim>\<open>a[:,:,k] = v\<close>.  The target has the shape of \<open>a\<close> without its third axis.  numpy drops
  leading axes of length 1 from \<open>v\<close> while \<open>v\<close> has more axes than the target, then
  broadcasts \<open>v\<close> to the target's shape; a \<open>v\<close> that does not fit raises \<open>ValueError\<close>.
\<close>

fun strip_ones :: "nat list \<Rightarrow> nat \<Rightarrow> nat list" where
  "strip_ones [] n = []"
| "strip_ones (d # ds) n = (if n < length (d # ds) \<and> d = 1 then strip_ones ds n else d # ds)"

definition broadcasts_to :: "nat list \<Rightarrow> nat list \<Rightarrow> bool" where
  "broadcasts_to vs ts \<longleftrightarrow>
     length vs \<le> length ts \<and>
     list_all2 (\<lambda>d t. d = t \<or> d = 1) vs (drop (length ts - length vs) ts)"

definition set_slice2 :: "ndarray \<Rightarrow> nat \<Rightarrow> ndarray \<Rightarrow> error + ndarray" where
  "set_slice2 a k v =
     (case shape a of
        n0 # n1 # n2 # s \<Rightarrow>
          if k < n2 then
            (let vs = strip_ones (shape v) (2 + length s) in
             if broadcasts_to vs (n0 # n1 # s)
             then Inr \<lparr>shape = shape a,
                      elem = (\<lambda>idx. if length idx = ndim a \<and> idx ! 2 = k
                                then elem v (replicate (ndim v - length vs) 0
                                             @ bindex vs (take 2 idx @ drop 3 idx))
                                else elem a idx)\<rparr>
             else Inl ValueError)
          else Inl IndexError
      | _ \<Rightarrow> Inl IndexError)"

text \<open>\<^verbatim>\<open>len(a)\<close>, and \<^verbatim>\<open>float(a[i])\<close> or \<^verbatim>\<open>int(a[i])\<close> before the conversion: \<open>a[i]\<close> must hold
  exactly one element.\<close>

definition len_array :: "ndarray \<Rightarrow> error + nat" where
  "len_array a = (case shape a of [] \<Rightarrow> Inl TypeError | n # s \<Rightarrow> Inr n)"

definition item1 :: "ndarray \<Rightarrow> nat \<Rightarrow> error + rat" where
  "item1 a i =
     (case shape a of
        [] \<Rightarrow> Inl IndexError
      | n # s \<Rightarrow>
          if i < n then (if prod_list s = 1 then Inr (elem a (i # map (\<lambda>d. 0) s)) else Inl TypeError)
          else Inl IndexError)"

text \<open>\<^verbatim>\<open>int(x)\<close> rounds towards zero; \<^verbatim>\<open>str(n)\<close> is the decimal rendering of an integer.\<close>

definition py_int :: "rat \<Rightarrow> int" where
  "py_int x = (if x < 0 then - \<lfloor>- x\<rfloor> else \<lfloor>x\<rfloor>)"

function str_nat :: "nat \<Rightarrow> string" where
  "str_nat n = (if n < 10 then [''0123456789'' ! n] else str_nat (n div 10) @ [''0123456789'' ! (n mod 10)])"
  by pat_completeness auto
termination
  by (relation "measure (\<lambda>n. n)") auto

definition str_int :: "int \<Rightarrow> string" where
  "str_int i = (if i < 0 then CHR ''-'' # str_nat (nat (- i)) else str_nat (nat i))"

section \<open>The file and the world around the loader\<close>

text \<open>
  An open \<^verbatim>\<open>balance.nc\<close> file: its numeric variables by name, and the character variable
  \<^verbatim>\<open>species\<close> (one row of bytes per species), kept apart because it is the only one the
  loader compares with bytes.  \<open>species_var = None\<close> means the file has no such variable.
\<close>

record netcdf_file =
  variables :: "string \<rightharpoonup> ndarray"
  species_var :: "char list list option"

text \<open>
  The part of the operating system the loader touches: which paths are directories
  (\<^verbatim>\<open>os.path.isdir\<close>), which paths \<^verbatim>\<open>netcdf.netcdf_file\<close> can open and what it finds there,
  and the handles that are open (one entry per open handle, named by its path).
\<close>

record world =
  isdir :: "string \<Rightarrow> bool"
  files :: "string \<rightharpoonup> netcdf_file"
  open_handles :: "string list"

definition netcdf_open :: "world \<Rightarrow> string \<Rightarrow> (error + netcdf_file) \<times> world" where
  "netcdf_open w p =
     (case files w p of
        None \<Rightarrow> (Inl (OSError p), w)
      | Some f \<Rightarrow> (Inr f, w\<lparr>open_handles := p # open_handles w\<rparr>))"

definition netcdf_close :: "world \<Rightarrow> string \<Rightarrow> world" where
  "netcdf_close w p = w\<lparr>open_handles := remove1 p (open_handles w)\<rparr>"

definition get_var :: "netcdf_file \<Rightarrow> string \<Rightarrow> error + ndarray" where
  "get_var f n = (case variables f n of None \<Rightarrow> Inl (KeyError n) | Some a \<Rightarrow> Inr a)"

text \<open>\<^verbatim>\<open>fhandle.variables['species'].data[i,j]\<close>\<close>

definition species_char :: "netcdf_file \<Rightarrow> nat \<Rightarrow> nat \<Rightarrow> error + char" where
  "species_char f i j =
     (case species_var f of
        None \<Rightarrow> Inl (KeyError ''species'')
      | Some rows \<Rightarrow>
          if i < length rows \<and> j < length (rows ! i) then Inr (rows ! i ! j) else Inl IndexError)"

section \<open>The species catalogue\<close>

text \<open>The elements imported from \<^verbatim>\<open>cherab.core.atomic.elements\<close> and their \<^verbatim>\<open>symbol\<close>
  attribute.\<close>

datatype element =
  hydrogen | deuterium | helium | beryllium | carbon | nitrogen | oxygen | neon | argon
  | krypton | xenon

fun symbol :: "element \<Rightarrow> string" where
  "symbol hydrogen = ''H''"
| "symbol deuterium = ''D''"
| "symbol helium = ''He''"
| "symbol beryllium = ''Be''"
| "symbol carbon = ''C''"
| "symbol nitrogen = ''N''"
| "symbol oxygen = ''O''"
| "symbol neon = ''Ne''"
| "symbol argon = ''Ar''"
| "symbol krypton = ''Kr''"
| "symbol xenon = ''Xe''"

text \<open>\<^verbatim>\<open>_popular_species\<close>, keyed by nuclear charge and atomic mass.  A mass is the exact
  value of the literal.\<close>

definition popular_species :: "int \<times> rat \<rightharpoonup> element" where
  "popular_species =
     [(1, 2) \<mapsto> deuterium,
      (6, 12) \<mapsto> carbon,
      (2, 4003 / 1000) \<mapsto> helium,
      (7, 14) \<mapsto> nitrogen,
      (10, 2018 / 100) \<mapsto> neon,
      (18, 39948 / 1000) \<mapsto> argon,
      (18, 40) \<mapsto> argon,
      (36, 83798 / 1000) \<mapsto> krypton,
      (54, 131293 / 1000) \<mapsto> xenon]"

definition Q :: rat where
  "Q = 1602 / 10 ^ 22"

section \<open>The loader, stage by stage\<close>

subsection \<open>Line 57: the check of the file name\<close>

text \<open>
  \<^verbatim>\<open>if not os.path.isdir(balance_filename): RuntimeError("file name must be valid")\<close>.
  The body of the \<^verbatim>\<open>if\<close> is an expression statement: it builds the exception and drops
  it, there is no \<^verbatim>\<open>raise\<close>.  The result is the exception the statement raises, if any.
\<close>

definition check_filename :: "world \<Rightarrow> string \<Rightarrow> error option" where
  "check_filename w balance_filename =
     (if \<not> isdir w balance_filename
      then (let exc = RuntimeError ''file name must be valid'' in None)
      else None)"

subsection \<open>Lines 63 to 85: geometry, mesh and electrons\<close>

text \<open>
  \<^verbatim>\<open>SOLPSMesh\<close>, \<^verbatim>\<open>Discrete2DMesh\<close> and \<^verbatim>\<open>AxisymmetricMapper\<close> are not part of the loader; it
  only hands arrays to them.  They are parameters of the model: the mesh constructor, the
  mesh's \<^verbatim>\<open>num_tris\<close>, and the construction of the inside/outside function from the mesh
  and the per-triangle data.  The unused locals \<^verbatim>\<open>ni = mesh.nx\<close> and \<^verbatim>\<open>nj = mesh.ny\<close> are
  left out.
\<close>

record ('m, 'i) collaborators =
  SOLPSMesh :: "ndarray \<Rightarrow> ndarray \<Rightarrow> ndarray \<Rightarrow> error + 'm"
  num_tris :: "'m \<Rightarrow> nat"
  inside_outside :: "'m \<Rightarrow> ndarray \<Rightarrow> error + 'i"

record 'm geometry =
  g_mesh :: 'm
  g_vol :: ndarray
  g_electron_temperature :: ndarray
  g_electron_density :: ndarray

definition load_mesh_electrons :: "('m, 'i) collaborators \<Rightarrow> netcdf_file \<Rightarrow> error + 'm geometry" where
  "load_mesh_electrons C f =
     bindE (get_var f ''crx'') (\<lambda>cr_x.
     bindE (get_var f ''cry'') (\<lambda>cr_z.
     bindE (get_var f ''vol'') (\<lambda>vol.
     bindE (rearrange cr_x) (\<lambda>cr_x.
     bindE (rearrange cr_z) (\<lambda>cr_z.
     bindE (SOLPSMesh C cr_x cr_z vol) (\<lambda>mesh.
     bindE (get_var f ''te'') (\<lambda>te.
     bindE (get_var f ''ne'') (\<lambda>ne.
       Inr \<lparr>g_mesh = mesh, g_vol = vol,
            g_electron_temperature = map_array (\<lambda>x. x / Q) te,
            g_electron_density = ne\<rparr>))))))))"

subsection \<open>Lines 91 to 113: the species\<close>

text \<open>
  Lines 97 to 106, the five \<^verbatim>\<open>if\<close> statements on the bytes of record \<open>i\<close>.  \<open>zn\<close> is a local
  of the whole function: \<open>None\<close> while nothing has been assigned to it, and otherwise the
  value it had when the previous record was done.
\<close>

definition nuclear_charge :: "netcdf_file \<Rightarrow> nat \<Rightarrow> int option \<Rightarrow> error + int option" where
  "nuclear_charge f i zn =
     bindE (species_char f i 1) (\<lambda>c1.
       let zn = (if c1 = CHR ''D'' then Some 1 else zn);
           zn = (if c1 = CHR ''C'' then Some 6 else zn);
           zn = (if c1 = CHR ''N'' then Some 7 else zn)
       in bindE (if c1 = CHR ''N''
                 then bindE (species_char f i 2) (\<lambda>c2. Inr (if c2 = CHR ''e'' then Some 10 else zn))
                 else Inr zn) (\<lambda>zn.
          if c1 = CHR ''A''
          then bindE (species_char f i 2) (\<lambda>c2. Inr (if c2 = CHR ''r'' then Some 18 else zn))
          else Inr zn))"

text \<open>Lines 97 to 113, one pass of the loop: the new \<open>zn\<close> and the label to append.\<close>

definition decode_species :: "netcdf_file \<Rightarrow> nat \<Rightarrow> int option \<Rightarrow> error + (int option \<times> string)" where
  "decode_species f i zn =
     bindE (nuclear_charge f i zn) (\<lambda>zn.
     bindE (get_var f ''am'') (\<lambda>am_var.
     bindE (item1 am_var i) (\<lambda>am.
     bindE (get_var f ''za'') (\<lambda>za_var.
     bindE (item1 za_var i) (\<lambda>za.
       let charge = py_int za in
       case zn of
         None \<Rightarrow> Inl (UnboundLocalError ''zn'')
       | Some z \<Rightarrow>
           (case popular_species (z, am) of
              None \<Rightarrow> Inl (SpeciesKeyError z am)
            | Some species \<Rightarrow> Inr (Some z, symbol species @ str_int charge)))))))"

fun species_loop ::
  "netcdf_file \<Rightarrow> nat list \<Rightarrow> int option \<times> string list \<Rightarrow> error + (int option \<times> string list)" where
  "species_loop f [] st = Inr st"
| "species_loop f (i # is) (zn, species_list) =
     bindE (decode_species f i zn) (\<lambda>(zn, label). species_loop f is (zn, species_list @ [label]))"

definition load_species :: "netcdf_file \<Rightarrow> error + string list" where
  "load_species f =
     bindE (get_var f ''am'') (\<lambda>am_var.
     bindE (len_array am_var) (\<lambda>n_species.
     bindE (species_loop f [0..<n_species] (None, [])) (\<lambda>(zn, species_list).
       Inr species_list)))"

subsection \<open>Lines 115 to 137: species density and the neutrals\<close>

text \<open>Lines 126 to 129: \<open>D0_indx\<close> stays unassigned (\<open>None\<close>) when no label is \<^verbatim>\<open>'D0'\<close>; the
  loop runs over all labels and keeps the last index it finds.\<close>

definition find_D0 :: "string list \<Rightarrow> nat option" where
  "find_D0 species_list =
     (if ''D0'' \<in> set species_list
      then fold (\<lambda>i D0_indx. if species_list ! i = ''D0'' then Some i else D0_indx)
             [0..<length species_list] None
      else None)"

text \<open>Lines 133 to 137: the new density and the flag \<^verbatim>\<open>eirene_run\<close>.  The right-hand side of
  the assignment is evaluated before \<open>D0_indx\<close> is read.\<close>

definition replace_neutral_density ::
  "netcdf_file \<Rightarrow> nat option \<Rightarrow> ndarray \<Rightarrow> error + (ndarray \<times> bool)" where
  "replace_neutral_density f D0_indx species_density =
     (if variables f ''dab2'' \<noteq> None
      then bindE (get_var f ''dab2'') (\<lambda>dab2.
           bindE (crop_first dab2) (\<lambda>v.
             case D0_indx of
               None \<Rightarrow> Inl (UnboundLocalError ''D0_indx'')
             | Some k \<Rightarrow> bindE (set_slice2 species_density k v) (\<lambda>d. Inr (d, True))))
      else Inr (species_density, False))"

subsection \<open>Lines 142 to 169: the total radiated power\<close>

text \<open>Lines 143 to 155, the branch \<^verbatim>\<open>eirene_run is True\<close>.  \<open>eirene_ecoolrate\<close> and
  \<open>eirene_potential_loss\<close> are assigned only when their variable is in the file.
  \<open>coupled_signed_sum\<close> is the argument of \<^verbatim>\<open>abs\<close> in line 155.\<close>

definition coupled_signed_sum :: "netcdf_file \<Rightarrow> ndarray \<Rightarrow> error + double array" where
  "coupled_signed_sum f vol =
     bindE (get_var f ''b2stel_she_bal'') (\<lambda>she.
     bindE (binop div_double she vol) (\<lambda>b2_ploss.
     bindE (if variables f ''eirene_mc_eael_she_bal'' \<noteq> None
            then bindE (get_var f ''eirene_mc_eael_she_bal'') (\<lambda>eael.
                 bindE (sum_axis0 eael) (\<lambda>s.
                 bindE (binop div_double s vol) (\<lambda>r. Inr (Some r))))
            else Inr None) (\<lambda>eirene_ecoolrate.
     bindE (if variables f ''eirene_mc_papl_sna_bal'' \<noteq> None
            then bindE (get_var f ''eirene_mc_papl_sna_bal'') (\<lambda>papl.
                 bindE (sum_axis0 papl) (\<lambda>s.
                 bindE (second_entry s) (\<lambda>s1.
                 bindE (binop div_double (map_array (\<lambda>x. (136 / 10) * x * Q) s1) vol) (\<lambda>r.
                   Inr (Some r)))))
            else Inr None) (\<lambda>eirene_potential_loss.
       case eirene_ecoolrate of
         None \<Rightarrow> Inl (UnboundLocalError ''eirene_ecoolrate'')
       | Some ecool \<Rightarrow>
           (case eirene_potential_loss of
              None \<Rightarrow> Inl (UnboundLocalError ''eirene_potential_loss'')
            | Some ploss \<Rightarrow>
                bindE (binop sub_double ecool ploss) (\<lambda>d.
                binop add_double b2_ploss d))))))"

definition coupled_total_rad :: "netcdf_file \<Rightarrow> ndarray \<Rightarrow> error + double array" where
  "coupled_total_rad f vol = bindE (coupled_signed_sum f vol) (\<lambda>t. Inr (np_abs t))"

text \<open>Lines 162 to 169, the \<^verbatim>\<open>else\<close> branch.  \<open>fluid_signed_sum\<close> is the argument of \<^verbatim>\<open>abs\<close>
  in line 169.\<close>

definition fluid_signed_sum :: "netcdf_file \<Rightarrow> ndarray \<Rightarrow> error + double array" where
  "fluid_signed_sum f vol =
     bindE (get_var f ''b2stel_she_bal'') (\<lambda>she.
     bindE (sum_axis0 she) (\<lambda>s.
     bindE (binop div_double s vol) (\<lambda>b2_ploss.
     bindE (get_var f ''b2stel_sna_ion_bal'') (\<lambda>ion.
     bindE (sum_axis0 ion) (\<lambda>s'.
     bindE (binop div_double s' vol) (\<lambda>potential_loss.
       binop sub_double (map_array (mul_scalar ((136 / 10) * Q)) potential_loss) b2_ploss))))))"

definition fluid_total_rad :: "netcdf_file \<Rightarrow> ndarray \<Rightarrow> error + double array" where
  "fluid_total_rad f vol = bindE (fluid_signed_sum f vol) (\<lambda>t. Inr (np_abs t))"

definition total_radiated_power :: "netcdf_file \<Rightarrow> ndarray \<Rightarrow> bool \<Rightarrow> error + double array" where
  "total_radiated_power f vol eirene_run =
     (if eirene_run then coupled_total_rad f vol else fluid_total_rad f vol)"

subsection \<open>The whole call\<close>

text \<open>The attributes of the \<^verbatim>\<open>SOLPSSimulation\<close> object that the loader assigns.\<close>

record ('m, 'i) SOLPSSimulation =
  mesh :: 'm
  electron_temperature :: ndarray
  electron_density :: ndarray
  species_list :: "string list"
  species_density :: ndarray
  inside_mesh :: 'i
  total_rad :: "double array"

text \<open>Lines 63 to 169, between opening and closing the file.\<close>

definition load_fields :: "('m, 'i) collaborators \<Rightarrow> netcdf_file \<Rightarrow> error + ('m, 'i) SOLPSSimulation" where
  "load_fields C f =
     bindE (load_mesh_electrons C f) (\<lambda>g.
     bindE (load_species f) (\<lambda>labels.
     bindE (get_var f ''na'') (\<lambda>tmp.
     bindE (rearrange tmp) (\<lambda>tmp.
     bindE (inside_outside C (g_mesh g) (ones (num_tris C (g_mesh g)))) (\<lambda>inside.
     bindE (replace_neutral_density f (find_D0 labels) tmp) (\<lambda>(density, eirene_run).
     bindE (total_radiated_power f (g_vol g) eirene_run) (\<lambda>rad.
       Inr \<lparr>mesh = g_mesh g,
            electron_temperature = g_electron_temperature g,
            electron_density = g_electron_density g,
            species_list = labels,
            species_density = density,
            inside_mesh = inside,
            total_rad = rad\<rparr>)))))))"

text \<open>
  \<^verbatim>\<open>load_solps_from_balance(balance_filename, debug)\<close>: the value returned or the exception
  raised, and the world afterwards.  \<^verbatim>\<open>fhandle.close()\<close> is the last statement before
  \<^verbatim>\<open>return sim\<close>; no \<^verbatim>\<open>try\<close> or \<^verbatim>\<open>with\<close> surrounds the statements before it.
\<close>

definition load_solps_from_balance ::
  "('m, 'i) collaborators \<Rightarrow> world \<Rightarrow> string \<Rightarrow> bool \<Rightarrow> (error + ('m, 'i) SOLPSSimulation) \<times> world" where
  "load_solps_from_balance C w balance_filename debug =
     (case check_filename w balance_filename of
        Some e \<Rightarrow> (Inl e, w)
      | None \<Rightarrow>
          (case netcdf_open w balance_filename of
             (Inl e, w1) \<Rightarrow> (Inl e, w1)
           | (Inr fhandle, w1) \<Rightarrow>
               (case load_fields C fhandle of
                  Inl e \<Rightarrow> (Inl e, w1)
                | Inr sim \<Rightarrow> (Inr sim, netcdf_close w1 balance_filename))))"

section \<open>The collaborators\<close>

text \<open>
  Modelled from the spec: the mesh builder \<^verbatim>\<open>SOLPSMesh\<close> of \<^verbatim>\<open>cherab.solps.mesh_geometry\<close>,
  whose code is not at hand.  Section 4.3 of the specification: it takes the rearranged
  corner coordinates and the cell volumes, fails with a mesh construction error when the
  corner axis does not have length 4 or when the shape of the volumes is not that of the
  two cell axes of the coordinates, and the mesh knows its two cell counts; it has two
  triangles per cell.  The corner axis is the last axis of the arrays the loader hands
  over.  The inside/outside function is kept as the per-triangle data it is built from.
  The theorems below hold for all collaborators; this one serves to run the loader on
  concrete files.
\<close>

record quad_mesh =
  nx :: nat
  ny :: nat
  mesh_cr_x :: ndarray
  mesh_cr_z :: ndarray
  mesh_vol :: ndarray

definition SOLPSMesh_spec :: "ndarray \<Rightarrow> ndarray \<Rightarrow> ndarray \<Rightarrow> error + quad_mesh" where
  "SOLPSMesh_spec cr_x cr_z vol =
     (case shape cr_x of
        [n0, n1, c] \<Rightarrow>
          if c = 4 \<and> shape cr_z = shape cr_x \<and> shape vol = [n0, n1]
          then Inr \<lparr>nx = n0, ny = n1, mesh_cr_x = cr_x, mesh_cr_z = cr_z, mesh_vol = vol\<rparr>
          else Inl MeshConstructionError
      | _ \<Rightarrow> Inl MeshConstructionError)"

definition spec_collaborators :: "(quad_mesh, ndarray) collaborators" where
  "spec_collaborators =
     \<lparr>SOLPSMesh = SOLPSMesh_spec,
      num_tris = (\<lambda>m. 2 * nx m * ny m),
      inside_outside = (\<lambda>m data. Inr data)\<rparr>"

section \<open>Synthetic inputs\<close>

text \<open>The element at an index is written with the index's digits: \<open>[1, 0, 2]\<close> gives 102.\<close>

definition digits :: "nat list \<Rightarrow> rat" where
  "digits idx = of_nat (foldl (\<lambda>n i. 10 * n + i) 0 idx)"

definition synth :: "nat list \<Rightarrow> rat \<Rightarrow> rat \<Rightarrow> ndarray" where
  "synth s c0 c1 = \<lparr>shape = s, elem = (\<lambda>idx. c0 + c1 * digits idx)\<rparr>"

text \<open>
  A file without kinetic-code variables, on a grid of 1 by 2 cells with the two species
  D0 and D1, and the same file with the three kinetic-code variables
  (the neutral density \<^verbatim>\<open>dab2\<close> with two more columns than the grid).
  Several fields are negative.
\<close>

definition fluid_file :: netcdf_file where
  "fluid_file =
     \<lparr>variables =
        [''crx'' \<mapsto> synth [4, 1, 2] 0 1,
         ''cry'' \<mapsto> synth [4, 1, 2] 1000 1,
         ''vol'' \<mapsto> synth [1, 2] 1 1,
         ''te'' \<mapsto> synth [1, 2] 0 Q,
         ''ne'' \<mapsto> synth [1, 2] 7 1,
         ''am'' \<mapsto> synth [2] 2 0,
         ''za'' \<mapsto> synth [2] 0 1,
         ''na'' \<mapsto> synth [2, 1, 2] 0 1,
         ''b2stel_she_bal'' \<mapsto> synth [2, 1, 2] (- 1) (- 1),
         ''b2stel_sna_ion_bal'' \<mapsto> synth [2, 1, 2] 0 1],
      species_var = Some ['' D0'', '' D1'']\<rparr>"

definition coupled_file :: netcdf_file where
  "coupled_file =
     fluid_file\<lparr>variables := (variables fluid_file)
       (''dab2'' \<mapsto> synth [1, 1, 4] 500 1,
        ''eirene_mc_eael_she_bal'' \<mapsto> synth [1, 1, 2] (- 3) 1,
        ''eirene_mc_papl_sna_bal'' \<mapsto> synth [1, 2, 1, 2] 0 (- 1))\<rparr>"

definition world_of :: "netcdf_file \<Rightarrow> world" where
  "world_of f = \<lparr>isdir = (\<lambda>p. False), files = [''balance.nc'' \<mapsto> f], open_handles = []\<rparr>"


text \<open>A synthetic array of shape \<open>(2, 3, 4)\<close> whose element at \<open>[c, p, r]\<close> is \<open>100 c + 10 p + r\<close>.\<close>

definition array234 :: ndarray where
  "array234 = \<lparr>shape = [2, 3, 4],
     elem = (\<lambda>idx. case idx of [c, p, r] \<Rightarrow> of_nat (100 * c + 10 * p + r) | _ \<Rightarrow> 0)\<rparr>"

text \<open>Variants of the two files: one kinetic-code variable removed; a second record whose
  bytes match no rule (with the mass of deuterium, and with a mass of 3); two records that
  both give the label D0; no record that gives D0.\<close>

definition no_eael_file :: netcdf_file where
  "no_eael_file =
     coupled_file\<lparr>variables := (variables coupled_file)(''eirene_mc_eael_she_bal'' := None)\<rparr>"

definition stale_zn_file :: netcdf_file where
  "stale_zn_file = fluid_file\<lparr>species_var := Some ['' D0'', '' H1'']\<rparr>"

definition unknown_species_file :: netcdf_file where
  "unknown_species_file =
     fluid_file\<lparr>variables := (variables fluid_file)(''am'' \<mapsto> synth [2] 2 1)\<rparr>"

definition duplicate_D0_file :: netcdf_file where
  "duplicate_D0_file =
     coupled_file\<lparr>variables := (variables coupled_file)(''za'' \<mapsto> synth [2] 0 0)\<rparr>"

definition no_D0_file :: netcdf_file where
  "no_D0_file =
     coupled_file\<lparr>variables := (variables coupled_file)(''za'' \<mapsto> synth [2] 1 1)\<rparr>"

text \<open>The fluid file with a positive energy-loss field, and the same with cell volumes
  that are zero.\<close>

definition positive_she_file :: netcdf_file where
  "positive_she_file =
     fluid_file\<lparr>variables := (variables fluid_file)(''b2stel_she_bal'' \<mapsto> synth [2, 1, 2] 1 1)\<rparr>"

definition zero_vol_file :: netcdf_file where
  "zero_vol_file =
     positive_she_file\<lparr>variables := (variables positive_she_file)(''vol'' \<mapsto> synth [1, 2] 0 0)\<rparr>"

text \<open>A world without files.\<close>

definition empty_world :: world where
  "empty_world = \<lparr>isdir = (\<lambda>p. False), files = Map.empty, open_handles = []\<rparr>"

section \<open>Basic facts\<close>

lemma bindE_Inr [simp]: "bindE (Inr x) k = k x"
  by (simp add: bindE_def)

lemma bindE_Inl [simp]: "bindE (Inl e) k = Inl e"
  by (simp add: bindE_def)

lemma bindE_eq_Inr: "bindE m k = Inr y \<longleftrightarrow> (\<exists>x. m = Inr x \<and> k x = Inr y)"
  by (cases m) simp_all

lemma length_swap_list [simp]: "length (swap_list i j xs) = length xs"
  by (simp add: swap_list_def)

lemma swap_list_involution [simp]: "swap_list i j (swap_list i j xs) = xs"
  by (auto simp: swap_list_def list_update_swap nth_list_update intro!: nth_equalityI)

lemma swapaxes_twice:
  assumes "i < ndim a" "j < ndim a"
  shows "bindE (swapaxes a i j) (\<lambda>b. swapaxes b i j) = Inr a"
  using assms by (simp add: swapaxes_def ndim_def)

section \<open>The rearrangement of the axes\<close>

lemma rearrange_rank3:
  assumes "shape a = [C, P, R]"
  shows "rearrange a =
    Inr \<lparr>shape = [P, R, C], elem = (\<lambda>idx. elem a (swap_list 0 2 (swap_list 0 1 idx)))\<rparr>"
  using assms by (simp add: rearrange_def swapaxes_def ndim_def swap_list_def)

text \<open>
  C5, as the code has it.  An array of shape \<open>(C, P, R)\<close> is rearranged into one of shape
  \<open>(P, R, C)\<close>: the leading axis moves to the last position and the other two keep their
  order, so the element at \<open>[p, r, c]\<close> of the result is the element at \<open>[c, p, r]\<close> of the
  input.  The two swaps undone in the opposite order give the input back, shape and
  elements.
\<close>

theorem rearrange_moves_leading_axis_last:
  assumes "shape a = [C, P, R]"
  shows "\<exists>b. rearrange a = Inr b \<and> shape b = [P, R, C]
           \<and> (\<forall>p r c. elem b [p, r, c] = elem a [c, p, r])
           \<and> rearrange_inverse b = Inr a"
proof -
  let ?b = "\<lparr>shape = [P, R, C], elem = (\<lambda>idx. elem a (swap_list 0 2 (swap_list 0 1 idx)))\<rparr>"
  have b: "rearrange a = Inr ?b"
    using assms by (rule rearrange_rank3)
  have el: "\<forall>p r c. elem ?b [p, r, c] = elem a [c, p, r]"
    by (simp add: swap_list_def)
  have sh: "swap_list 0 (Suc 0) [P, R, C] = [R, P, C]" "swap_list 0 2 [R, P, C] = [C, P, R]"
    by (simp_all add: swap_list_def)
  have inv: "rearrange_inverse ?b = Inr a"
    using assms by (cases a) (simp add: rearrange_inverse_def swapaxes_def ndim_def sh)
  from b el inv show ?thesis
    by (intro exI [of _ ?b]) simp
qed

theorem rearrange_moves_leading_axis_last_witness:
  "shape array234 = [2, 3, 4]
   \<and> (\<exists>b. rearrange array234 = Inr b \<and> shape b = [3, 4, 2]
        \<and> (\<forall>p r c. elem b [p, r, c] = elem array234 [c, p, r])
        \<and> rearrange_inverse b = Inr array234)"
proof -
  have h: "shape array234 = [2, 3, 4]"
    by (simp add: array234_def)
  from h rearrange_moves_leading_axis_last [OF h] show ?thesis
    by simp
qed

text \<open>
  C5, as the specification states it, fails: the array of shape \<open>(2, 3, 4)\<close> is rearranged
  into shape \<open>(3, 4, 2)\<close>, not \<open>(4, 3, 2)\<close>.
\<close>

theorem rearrange_shape_counterexample:
  "shape array234 = [2, 3, 4] \<and> \<not> isl (rearrange array234)
   \<and> shape (projr (rearrange array234)) = [3, 4, 2]
   \<and> shape (projr (rearrange array234)) \<noteq> [4, 3, 2]"
  by (simp add: array234_def rearrange_def swapaxes_def ndim_def swap_list_def)

section \<open>The whole call and the world\<close>

lemma check_filename_never_raises [simp]: "check_filename w p = None"
  by (simp add: check_filename_def)

lemma load_on_file:
  assumes "files w p = Some f"
  shows "load_solps_from_balance C w p d =
    (case load_fields C f of
       Inl e \<Rightarrow> (Inl e, w\<lparr>open_handles := p # open_handles w\<rparr>)
     | Inr sim \<Rightarrow> (Inr sim, w))"
  using assms
  by (cases w) (simp add: load_solps_from_balance_def netcdf_open_def netcdf_close_def split: sum.splits)

lemma load_no_file:
  assumes "files w p = None"
  shows "load_solps_from_balance C w p d = (Inl (OSError p), w)"
  using assms by (simp add: load_solps_from_balance_def netcdf_open_def)

lemma load_result:
  assumes "files w p = Some f"
  shows "fst (load_solps_from_balance C w p d) = load_fields C f"
  using assms by (simp add: load_on_file split: sum.splits)

text \<open>
  C9, as the code has it.  The handle is released when the load returns a simulation:
  the open handles are then those from before the call.  When the file was opened and an
  exception ends the load, the handle is still open afterwards.
\<close>

theorem handle_released_on_return_only:
  "(fst (load_solps_from_balance C w p d) = Inr sim \<longrightarrow>
      open_handles (snd (load_solps_from_balance C w p d)) = open_handles w)
   \<and> (files w p = Some f \<and> fst (load_solps_from_balance C w p d) = Inl e \<longrightarrow>
      open_handles (snd (load_solps_from_balance C w p d)) = p # open_handles w)"
proof (cases "files w p")
  case None
  then show ?thesis
    by (simp add: load_no_file)
next
  case (Some f')
  then show ?thesis
    by (auto simp: load_on_file split: sum.splits)
qed

lemma coupled_file_loads:
  "\<not> isl (fst (load_solps_from_balance spec_collaborators (world_of coupled_file) ''balance.nc'' False))"
  by code_simp

lemma unknown_species_file_fails:
  "isl (fst (load_solps_from_balance spec_collaborators (world_of unknown_species_file) ''balance.nc'' False))"
  by code_simp

text \<open>Both cases of C9 occur: the coupled file loads, the file with the species of mass 3
  fails.\<close>

theorem handle_released_on_return_only_witness:
  "open_handles (snd (load_solps_from_balance spec_collaborators (world_of coupled_file) ''balance.nc'' False))
     = open_handles (world_of coupled_file)
   \<and> open_handles (snd (load_solps_from_balance spec_collaborators (world_of unknown_species_file) ''balance.nc'' False))
     = ''balance.nc'' # open_handles (world_of unknown_species_file)"
proof -
  let ?ok = "load_solps_from_balance spec_collaborators (world_of coupled_file) ''balance.nc'' False"
  let ?bad = "load_solps_from_balance spec_collaborators (world_of unknown_species_file) ''balance.nc'' False"
  have ok: "fst ?ok = Inr (projr (fst ?ok))"
    using coupled_file_loads by (cases "fst ?ok") simp_all
  have bad: "fst ?bad = Inl (projl (fst ?bad))"
    using unknown_species_file_fails by (cases "fst ?bad") simp_all
  have present: "files (world_of unknown_species_file) ''balance.nc'' = Some unknown_species_file"
    by (simp add: world_of_def)
  from ok handle_released_on_return_only
    [of spec_collaborators "world_of coupled_file" "''balance.nc''" False "projr (fst ?ok)"]
  have 1: "open_handles (snd ?ok) = open_handles (world_of coupled_file)"
    by blast
  from bad present handle_released_on_return_only
    [of spec_collaborators "world_of unknown_species_file" "''balance.nc''" False _ unknown_species_file "projl (fst ?bad)"]
  have 2: "open_handles (snd ?bad) = ''balance.nc'' # open_handles (world_of unknown_species_file)"
    by blast
  from 1 2 show ?thesis ..
qed

text \<open>
  C9, as the specification states it, fails: the load of the file with an unknown species
  starts with no open handle, raises the \<^verbatim>\<open>KeyError\<close> of the catalogue, and leaves the handle
  of \<^verbatim>\<open>balance.nc\<close> open.
\<close>

theorem handle_left_open_counterexample:
  "open_handles (world_of unknown_species_file) = []
   \<and> isl (fst (load_solps_from_balance spec_collaborators (world_of unknown_species_file) ''balance.nc'' False))
   \<and> projl (fst (load_solps_from_balance spec_collaborators (world_of unknown_species_file) ''balance.nc'' False))
       = SpeciesKeyError 1 3
   \<and> open_handles (snd (load_solps_from_balance spec_collaborators (world_of unknown_species_file) ''balance.nc'' False))
       = [''balance.nc'']"
  by code_simp

text \<open>
  C2 on a path that does not exist.  The check of line 57 raises nothing, the load goes on
  to \<^verbatim>\<open>netcdf.netcdf_file\<close>, and the exception that ends the load is the one of the failed
  attempt to open the file.
\<close>

theorem missing_file_is_opened:
  "files empty_world ''missing.nc'' = None
   \<and> check_filename empty_world ''missing.nc'' = None
   \<and> fst (netcdf_open empty_world ''missing.nc'') = Inl (OSError ''missing.nc'')
   \<and> isl (fst (load_solps_from_balance spec_collaborators empty_world ''missing.nc'' False))
   \<and> projl (fst (load_solps_from_balance spec_collaborators empty_world ''missing.nc'' False))
       = OSError ''missing.nc''"
  by (simp add: empty_world_def check_filename_def netcdf_open_def load_solps_from_balance_def)

section \<open>Radiated power\<close>

lemma abs_double_sign: "abs_double x = NaN \<longleftrightarrow> x = NaN" "x \<noteq> NaN \<Longrightarrow> nonneg_double (abs_double x)"
  by (cases x; simp)+

lemma elem_np_abs [simp]: "elem (np_abs t) idx = abs_double (elem t idx)"
  by (simp add: np_abs_def map_array_def)

lemma shape_np_abs [simp]: "shape (np_abs t) = shape t"
  by (simp add: np_abs_def map_array_def)

lemma abs_of_sum:
  assumes "bindE m (\<lambda>t. Inr (np_abs t)) = Inr a"
  shows "\<exists>t. m = Inr t \<and> shape a = shape t
    \<and> (\<forall>idx. elem a idx = abs_double (elem t idx)
          \<and> (elem t idx \<noteq> NaN \<longrightarrow> nonneg_double (elem a idx))
          \<and> (elem t idx = NaN \<longrightarrow> elem a idx = NaN))"
proof -
  from assms obtain t where t: "m = Inr t" "a = np_abs t"
    by (auto simp: bindE_eq_Inr)
  then show ?thesis
    by (auto simp: abs_double_sign)
qed

text \<open>
  C8, as the code has it.  When a branch of the radiated-power calculation completes, its
  result is the element-wise absolute value of the signed sum of that branch, with the
  same shape.  An element is non-negative wherever the signed sum is a number or an
  infinity, and it is NaN wherever the signed sum is NaN.  This holds for the coupled
  branch and for the fluid-only branch, whatever the signs of the fields.
\<close>

theorem total_rad_abs_of_signed_sum:
  "(coupled_total_rad f vol = Inr a \<longrightarrow>
      (\<exists>t. coupled_signed_sum f vol = Inr t \<and> shape a = shape t
         \<and> (\<forall>idx. elem a idx = abs_double (elem t idx)
               \<and> (elem t idx \<noteq> NaN \<longrightarrow> nonneg_double (elem a idx))
               \<and> (elem t idx = NaN \<longrightarrow> elem a idx = NaN))))
   \<and> (fluid_total_rad f vol = Inr a \<longrightarrow>
      (\<exists>t. fluid_signed_sum f vol = Inr t \<and> shape a = shape t
         \<and> (\<forall>idx. elem a idx = abs_double (elem t idx)
               \<and> (elem t idx \<noteq> NaN \<longrightarrow> nonneg_double (elem a idx))
               \<and> (elem t idx = NaN \<longrightarrow> elem a idx = NaN))))"
  using abs_of_sum [of "coupled_signed_sum f vol" a] abs_of_sum [of "fluid_signed_sum f vol" a]
  by (simp add: coupled_total_rad_def fluid_total_rad_def)

text \<open>
  C8 on the coupled file and on the fluid file with a positive energy-loss field, with
  cell volumes 1 and 2.  At \<open>[0, 0]\<close> the signed sum of the fluid-only branch is the negative
  number \<open>13.6 Q 100 - 102\<close> and the result is its absolute value.
\<close>

theorem total_rad_abs_of_signed_sum_witness:
  "\<not> isl (coupled_total_rad coupled_file (synth [1, 2] 1 1))
   \<and> (\<forall>idx. elem (projr (coupled_total_rad coupled_file (synth [1, 2] 1 1))) idx
            = abs_double (elem (projr (coupled_signed_sum coupled_file (synth [1, 2] 1 1))) idx))
   \<and> \<not> isl (fluid_total_rad positive_she_file (synth [1, 2] 1 1))
   \<and> elem (projr (fluid_signed_sum positive_she_file (synth [1, 2] 1 1))) [0, 0]
       = Number (136 / 10 * Q * 100 - 102)
   \<and> 136 / 10 * Q * 100 - 102 < 0
   \<and> elem (projr (fluid_total_rad positive_she_file (synth [1, 2] 1 1))) [0, 0]
       = Number (102 - 136 / 10 * Q * 100)
   \<and> nonneg_double (elem (projr (fluid_total_rad positive_she_file (synth [1, 2] 1 1))) [0, 0])"
proof -
  let ?v = "synth [1, 2] 1 1"
  let ?c = "coupled_total_rad coupled_file ?v" and ?cs = "coupled_signed_sum coupled_file ?v"
  let ?f = "fluid_total_rad positive_she_file ?v" and ?fs = "fluid_signed_sum positive_she_file ?v"
  have c: "\<not> isl ?c" and f: "\<not> isl ?f"
    by code_simp+
  have val: "elem (projr ?fs) [0, 0] = Number (136 / 10 * Q * 100 - 102)"
    and neg: "136 / 10 * Q * 100 - 102 < 0"
    by code_simp+
  from c have "?c = Inr (projr ?c)"
    by (cases ?c) simp_all
  with total_rad_abs_of_signed_sum [of coupled_file ?v "projr ?c"]
  obtain t where "?cs = Inr t" "\<forall>idx. elem (projr ?c) idx = abs_double (elem t idx)"
    by blast
  then have 1: "\<forall>idx. elem (projr ?c) idx = abs_double (elem (projr ?cs) idx)"
    by simp
  from f have "?f = Inr (projr ?f)"
    by (cases ?f) simp_all
  with total_rad_abs_of_signed_sum [of positive_she_file ?v "projr ?f"]
  obtain t' where t': "?fs = Inr t'"
    "\<forall>idx. elem (projr ?f) idx = abs_double (elem t' idx)
        \<and> (elem t' idx \<noteq> NaN \<longrightarrow> nonneg_double (elem (projr ?f) idx))"
    by blast
  from t'(1) val have v': "elem t' [0, 0] = Number (136 / 10 * Q * 100 - 102)"
    by simp
  with t'(2) neg have 2: "elem (projr ?f) [0, 0] = Number (102 - 136 / 10 * Q * 100)"
    by (simp add: abs_if)
  from v' t'(2) have 3: "nonneg_double (elem (projr ?f) [0, 0])"
    by (metis double.distinct(5))
  from c 1 f val neg 2 3 show ?thesis
    by blast
qed

text \<open>
  C8, as the specification states it, fails: with cell volumes that are zero and positive
  fields, both terms of the fluid-only branch are infinite, their difference is NaN, the
  branch and the whole load complete, and the element at \<open>[0, 0]\<close> of the total radiated
  power is NaN, which is not non-negative.
\<close>

theorem zero_volume_counterexample:
  "\<not> isl (fluid_total_rad zero_vol_file (synth [1, 2] 0 0))
   \<and> elem (projr (fluid_total_rad zero_vol_file (synth [1, 2] 0 0))) [0, 0] = NaN
   \<and> \<not> isl (fst (load_solps_from_balance spec_collaborators (world_of zero_vol_file) ''balance.nc'' False))
   \<and> elem (total_rad (projr (fst (load_solps_from_balance spec_collaborators (world_of zero_vol_file) ''balance.nc'' False)))) [0, 0]
       = NaN
   \<and> \<not> nonneg_double (elem (total_rad (projr (fst (load_solps_from_balance spec_collaborators (world_of zero_vol_file) ''balance.nc'' False)))) [0, 0])"
  by code_simp

section \<open>Species\<close>

lemma species_loop_append:
  "species_loop f (xs @ ys) st = bindE (species_loop f xs st) (species_loop f ys)"
proof (induction xs arbitrary: st)
  case Nil
  show ?case by simp
next
  case (Cons i xs)
  show ?case
    by (cases st; cases "decode_species f i (fst st)") (auto simp: Cons.IH)
qed

lemma species_loop_stops:
  assumes "i < n" "species_loop f [0..<i] (None, []) = Inr (zn0, labels0)"
    and "decode_species f i zn0 = Inl e"
  shows "species_loop f [0..<n] (None, []) = Inl e"
proof -
  from \<open>i < n\<close> have "[0..<n] = [0..<i] @ i # [Suc i..<n]"
    by (metis le_add1 less_imp_le_nat upt_add_eq_append upt_conv_Cons le_add_diff_inverse plus_nat.add_0)
  then show ?thesis
    using assms by (simp add: species_loop_append)
qed

lemma species_loop_step:
  assumes "species_loop f [0..<i] (None, []) = Inr (zn0, labels0)"
    and "decode_species f i zn0 = Inr (zn1, label)"
  shows "species_loop f [0..<Suc i] (None, []) = Inr (zn1, labels0 @ [label])"
  using assms by (simp add: species_loop_append)

text \<open>
  C4.  Record \<open>i\<close> is reached (the geometry is loaded, the records before \<open>i\<close> are decoded)
  with nuclear charge \<open>z\<close>, mass \<open>a\<close> and ionisation value \<open>k\<close>.  If \<open>(z, a)\<close> is not a key of
  the catalogue, decoding raises the catalogue's \<^verbatim>\<open>KeyError\<close> and the whole load ends with
  it.  If \<open>(z, a)\<close> is the key of element \<open>e\<close>, the label is the symbol of \<open>e\<close> followed by the
  decimal rendering of \<open>int(k)\<close>, and it is appended to the labels.
\<close>

theorem catalogue_decides_decoding:
  assumes "files w p = Some f" and "load_mesh_electrons C f = Inr g"
    and "get_var f ''am'' = Inr am_var" and "len_array am_var = Inr n" and "i < n"
    and "species_loop f [0..<i] (None, []) = Inr (zn0, labels0)"
    and "nuclear_charge f i zn0 = Inr (Some z)"
    and "item1 am_var i = Inr a"
    and "get_var f ''za'' = Inr za_var" and "item1 za_var i = Inr k"
  shows "(popular_species (z, a) = None \<longrightarrow>
            decode_species f i zn0 = Inl (SpeciesKeyError z a)
            \<and> fst (load_solps_from_balance C w p d) = Inl (SpeciesKeyError z a))
       \<and> (\<forall>e. popular_species (z, a) = Some e \<longrightarrow>
            decode_species f i zn0 = Inr (Some z, symbol e @ str_int (py_int k))
            \<and> species_loop f [0..<Suc i] (None, []) =
                Inr (Some z, labels0 @ [symbol e @ str_int (py_int k)]))"
proof (intro conjI impI allI)
  assume miss: "popular_species (z, a) = None"
  with assms show dec: "decode_species f i zn0 = Inl (SpeciesKeyError z a)"
    by (simp add: decode_species_def)
  with assms have "species_loop f [0..<n] (None, []) = Inl (SpeciesKeyError z a)"
    by (intro species_loop_stops [where i = i])
  with assms have "load_species f = Inl (SpeciesKeyError z a)"
    by (simp add: load_species_def)
  with assms show "fst (load_solps_from_balance C w p d) = Inl (SpeciesKeyError z a)"
    by (simp add: load_result load_fields_def)
next
  fix e
  assume hit: "popular_species (z, a) = Some e"
  with assms show dec: "decode_species f i zn0 = Inr (Some z, symbol e @ str_int (py_int k))"
    by (simp add: decode_species_def)
  with assms show "species_loop f [0..<Suc i] (None, []) =
      Inr (Some z, labels0 @ [symbol e @ str_int (py_int k)])"
    by (intro species_loop_step)
qed


text \<open>C4 on the second record of two files: mass 3 is not in the catalogue, mass 2 is
  deuterium.\<close>

theorem catalogue_decides_decoding_witness:
  "popular_species (1, 3) = None
   \<and> decode_species unknown_species_file 1 (Some 1) = Inl (SpeciesKeyError 1 3)
   \<and> fst (load_solps_from_balance spec_collaborators (world_of unknown_species_file) ''balance.nc'' False)
       = Inl (SpeciesKeyError 1 3)
   \<and> popular_species (1, 2) = Some deuterium
   \<and> decode_species fluid_file 1 (Some 1) = Inr (Some 1, ''D1'')
   \<and> species_loop fluid_file [0..<Suc 1] (None, []) = Inr (Some 1, [''D0'', ''D1''])"
proof -
  let ?u = unknown_species_file and ?C = spec_collaborators
  have miss: "popular_species (1, 3) = None" and hit: "popular_species (1, 2) = Some deuterium"
    by (simp_all add: popular_species_def)
  have geo_u: "load_mesh_electrons ?C ?u = Inr (projr (load_mesh_electrons ?C ?u))"
  proof -
    have "\<not> isl (load_mesh_electrons ?C ?u)" by code_simp
    then show ?thesis by (cases "load_mesh_electrons ?C ?u") simp_all
  qed
  have geo_f: "load_mesh_electrons ?C fluid_file = Inr (projr (load_mesh_electrons ?C fluid_file))"
  proof -
    have "\<not> isl (load_mesh_electrons ?C fluid_file)" by code_simp
    then show ?thesis by (cases "load_mesh_electrons ?C fluid_file") simp_all
  qed
  have am_u: "get_var ?u ''am'' = Inr (synth [2] 2 1)"
    and za_u: "get_var ?u ''za'' = Inr (synth [2] 0 1)"
    by (simp_all add: unknown_species_file_def fluid_file_def get_var_def)
  have am_f: "get_var fluid_file ''am'' = Inr (synth [2] 2 0)"
    and za_f: "get_var fluid_file ''za'' = Inr (synth [2] 0 1)"
    by (simp_all add: fluid_file_def get_var_def)
  have len_u: "len_array (synth [2] 2 1) = Inr 2" and len_f: "len_array (synth [2] 2 0) = Inr 2"
    by (simp_all add: len_array_def synth_def)
  have first_u: "species_loop ?u [0..<1] (None, []) = Inr (Some 1, [''D0''])"
    and first_f: "species_loop fluid_file [0..<1] (None, []) = Inr (Some 1, [''D0''])"
    by code_simp+
  have zn_u: "nuclear_charge ?u 1 (Some 1) = Inr (Some 1)"
    and zn_f: "nuclear_charge fluid_file 1 (Some 1) = Inr (Some 1)"
    by code_simp+
  have items: "item1 (synth [2] 2 1) 1 = Inr 3" "item1 (synth [2] 0 1) 1 = Inr 1"
    "item1 (synth [2] 2 0) 1 = Inr 2"
    by code_simp+
  have there_u: "files (world_of ?u) ''balance.nc'' = Some ?u"
    and there_f: "files (world_of fluid_file) ''balance.nc'' = Some fluid_file"
    by (simp_all add: world_of_def)
  have label: "symbol deuterium @ str_int (py_int 1) = ''D1''"
    by code_simp
  have one: "(1::nat) < 2"
    by simp
  from miss catalogue_decides_decoding
    [OF there_u geo_u am_u len_u one first_u zn_u items(1) za_u items(2), of False]
  have 1: "decode_species ?u 1 (Some 1) = Inl (SpeciesKeyError 1 3)
    \<and> fst (load_solps_from_balance ?C (world_of ?u) ''balance.nc'' False) = Inl (SpeciesKeyError 1 3)"
    by blast
  from hit catalogue_decides_decoding
    [OF there_f geo_f am_f len_f one first_f zn_f items(3) za_f items(2), of False]
  have "decode_species fluid_file 1 (Some 1) = Inr (Some 1, symbol deuterium @ str_int (py_int 1))
    \<and> species_loop fluid_file [0..<Suc 1] (None, []) =
        Inr (Some 1, [''D0''] @ [symbol deuterium @ str_int (py_int 1)])"
    by blast
  then have 2: "decode_species fluid_file 1 (Some 1) = Inr (Some 1, ''D1'')
    \<and> species_loop fluid_file [0..<Suc 1] (None, []) = Inr (Some 1, [''D0'', ''D1''])"
    by (simp only: label append_Cons append_Nil)
  from miss hit 1 2 show ?thesis
    by blast
qed

text \<open>
  C3 on a file whose second record \<^verbatim>\<open>H1\<close> matches no rule.  With \<open>zn\<close> unassigned no rule
  assigns it; in the load, \<open>zn\<close> still holds the 1 of the first record, the lookup of
  \<open>(1, 2)\<close> succeeds, and the load completes with the label \<^verbatim>\<open>D1\<close> for that record.
\<close>

theorem stale_nuclear_charge_reused:
  "species_var stale_zn_file = Some ['' D0'', '' H1'']
   \<and> nuclear_charge stale_zn_file 1 None = Inr None
   \<and> nuclear_charge stale_zn_file 1 (Some 1) = Inr (Some 1)
   \<and> load_species stale_zn_file = Inr [''D0'', ''D1'']
   \<and> \<not> isl (fst (load_solps_from_balance spec_collaborators (world_of stale_zn_file) ''balance.nc'' False))
   \<and> species_list (projr (fst (load_solps_from_balance spec_collaborators (world_of stale_zn_file) ''balance.nc'' False)))
       = [''D0'', ''D1'']"
  by code_simp

section \<open>Neutral density\<close>

lemma fold_last_D0:
  assumes "i < n" "xs ! i = ''D0''" "\<forall>j<n. i < j \<longrightarrow> xs ! j \<noteq> ''D0''"
  shows "fold (\<lambda>i D0_indx. if xs ! i = ''D0'' then Some i else D0_indx) [0..<n] acc = Some i"
  using assms
proof (induction n)
  case 0
  then show ?case by simp
next
  case (Suc n)
  show ?case
  proof (cases "i = n")
    case True
    with Suc.prems show ?thesis by simp
  next
    case False
    with Suc.prems have "i < n" "xs ! n \<noteq> ''D0''"
      by auto
    with Suc show ?thesis by simp
  qed
qed

lemma find_D0_last:
  assumes "i < length labels" "labels ! i = ''D0''"
    and "\<forall>j<length labels. i < j \<longrightarrow> labels ! j \<noteq> ''D0''"
  shows "find_D0 labels = Some i"
proof -
  from assms(1,2) have "''D0'' \<in> set labels"
    by (metis nth_mem)
  with assms show ?thesis
    by (simp add: find_D0_def fold_last_D0)
qed

lemma find_D0_absent:
  assumes "''D0'' \<notin> set labels"
  shows "find_D0 labels = None"
  using assms by (simp add: find_D0_def)

lemma no_dab2_density_unchanged:
  assumes "variables f ''dab2'' = None"
  shows "replace_neutral_density f D0_indx dens = Inr (dens, False)"
  using assms by (simp add: replace_neutral_density_def)

lemma replace_flag:
  assumes "replace_neutral_density f D0_indx dens = Inr (dens', eirene_run)"
  shows "eirene_run = (variables f ''dab2'' \<noteq> None)"
  using assms
  by (auto simp: replace_neutral_density_def bindE_def split: if_splits sum.splits option.splits)

lemma replace_slice:
  assumes "variables f ''dab2'' = Some dab2" "shape dab2 = [Suc m, n0, n1 + 2]"
    and "shape dens = [n0, n1, n2]" "i < n2"
  shows "replace_neutral_density f (Some i) dens =
    Inr (\<lparr>shape = [n0, n1, n2],
          elem = (\<lambda>idx. if length idx = 3 \<and> idx ! 2 = i
                     then elem dab2 (0 # bindex [n0, n1] (take 2 idx))
                     else elem dens idx)\<rparr>, True)"
  using assms
  by (simp add: replace_neutral_density_def get_var_def crop_first_def set_slice2_def
      broadcasts_to_def ndim_def Let_def numeral_3_eq_3 cong: if_cong)

text \<open>
  C6, as the code has it.  Let \<open>i\<close> be the last index that holds the label \<^verbatim>\<open>D0\<close>, and
  let the density have shape \<open>(n0, n1, n2)\<close> with \<open>i < n2\<close>.  If \<^verbatim>\<open>dab2\<close> is in the file and
  has shape \<open>(m + 1, n0, n1 + 2)\<close>, the step completes, the slice \<open>[:, :, i]\<close> of the density
  holds the values of \<^verbatim>\<open>dab2[0]\<close> without its last two columns, and nothing else changes.
  If \<^verbatim>\<open>dab2\<close> is not in the file, the density is unchanged.
\<close>

theorem neutral_density_replaced:
  assumes "i < length labels" "labels ! i = ''D0''"
    and "\<forall>j<length labels. i < j \<longrightarrow> labels ! j \<noteq> ''D0''"
    and "shape dens = [n0, n1, n2]" "i < n2"
  shows "(\<forall>dab2 m. variables f ''dab2'' = Some dab2 \<and> shape dab2 = [Suc m, n0, n1 + 2] \<longrightarrow>
            (\<exists>dens'. replace_neutral_density f (find_D0 labels) dens = Inr (dens', True)
               \<and> shape dens' = shape dens
               \<and> (\<forall>r<n0. \<forall>p<n1. elem dens' [r, p, i] = elem dab2 [0, r, p])
               \<and> (\<forall>r p k. k \<noteq> i \<longrightarrow> elem dens' [r, p, k] = elem dens [r, p, k])))
       \<and> (variables f ''dab2'' = None \<longrightarrow>
            replace_neutral_density f (find_D0 labels) dens = Inr (dens, False))"
proof (intro conjI allI impI)
  fix dab2 m
  assume "variables f ''dab2'' = Some dab2 \<and> shape dab2 = [Suc m, n0, n1 + 2]"
  with assms have "replace_neutral_density f (find_D0 labels) dens =
    Inr (\<lparr>shape = [n0, n1, n2],
          elem = (\<lambda>idx. if length idx = 3 \<and> idx ! 2 = i
                     then elem dab2 (0 # bindex [n0, n1] (take 2 idx))
                     else elem dens idx)\<rparr>, True)"
    by (simp add: find_D0_last replace_slice)
  with assms(4) show "\<exists>dens'. replace_neutral_density f (find_D0 labels) dens = Inr (dens', True)
               \<and> shape dens' = shape dens
               \<and> (\<forall>r<n0. \<forall>p<n1. elem dens' [r, p, i] = elem dab2 [0, r, p])
               \<and> (\<forall>r p k. k \<noteq> i \<longrightarrow> elem dens' [r, p, k] = elem dens [r, p, k])"
    by (auto simp: bindex_def)
next
  assume "variables f ''dab2'' = None"
  then show "replace_neutral_density f (find_D0 labels) dens = Inr (dens, False)"
    by (rule no_dab2_density_unchanged)
qed

text \<open>C6 on the labels D0, D1 and a density of shape \<open>(1, 2, 2)\<close>, with and without
  \<^verbatim>\<open>dab2\<close>.\<close>

theorem neutral_density_replaced_witness:
  "[''D0'', ''D1''] ! 0 = ''D0''
   \<and> (\<exists>dens'. replace_neutral_density coupled_file (find_D0 [''D0'', ''D1'']) (synth [1, 2, 2] 0 1)
                 = Inr (dens', True)
         \<and> shape dens' = [1, 2, 2]
         \<and> elem dens' [0, 0, 0] = 500 \<and> elem dens' [0, 1, 0] = 501
         \<and> elem dens' [0, 0, 1] = 1 \<and> elem dens' [0, 1, 1] = 11)
   \<and> replace_neutral_density fluid_file (find_D0 [''D0'', ''D1'']) (synth [1, 2, 2] 0 1)
       = Inr (synth [1, 2, 2] 0 1, False)"
proof -
  let ?labels = "[''D0'', ''D1'']" and ?dens = "synth [1, 2, 2] 0 1" and ?dab2 = "synth [1, 1, 4] 500 1"
  have h1: "0 < length ?labels" and h2: "?labels ! 0 = ''D0''"
    and h3: "\<forall>j<length ?labels. 0 < j \<longrightarrow> ?labels ! j \<noteq> ''D0''"
    by (simp_all add: less_Suc_eq)
  have h4: "shape ?dens = [1, 2, 2]" and h5: "(0::nat) < 2"
    by (simp_all add: synth_def)
  have present: "variables coupled_file ''dab2'' = Some ?dab2 \<and> shape ?dab2 = [Suc 0, 1, 2 + 2]"
    by (simp add: coupled_file_def synth_def)
  have absent: "variables fluid_file ''dab2'' = None"
    by (simp add: fluid_file_def)
  have vals: "elem ?dab2 [0, 0, 0] = 500" "elem ?dab2 [0, 0, 1] = 501"
    "elem ?dens [0, 0, 1] = 1" "elem ?dens [0, 1, 1] = 11"
    by (simp_all add: synth_def digits_def)
  from present neutral_density_replaced [OF h1 h2 h3 h4 h5, of coupled_file]
  obtain dens' where d: "replace_neutral_density coupled_file (find_D0 ?labels) ?dens = Inr (dens', True)"
    "shape dens' = shape ?dens"
    "\<forall>r<1. \<forall>p<2. elem dens' [r, p, 0] = elem ?dab2 [0, r, p]"
    "\<forall>r p k. k \<noteq> 0 \<longrightarrow> elem dens' [r, p, k] = elem ?dens [r, p, k]"
    by blast
  from d(3) have "elem dens' [0, 0, 0] = elem ?dab2 [0, 0, 0]" "elem dens' [0, 1, 0] = elem ?dab2 [0, 0, 1]"
    by simp_all
  moreover from d(4) have "elem dens' [0, 0, 1] = elem ?dens [0, 0, 1]" "elem dens' [0, 1, 1] = elem ?dens [0, 1, 1]"
    by simp_all
  ultimately have 1: "\<exists>dens'. replace_neutral_density coupled_file (find_D0 ?labels) ?dens = Inr (dens', True)
         \<and> shape dens' = [1, 2, 2]
         \<and> elem dens' [0, 0, 0] = 500 \<and> elem dens' [0, 1, 0] = 501
         \<and> elem dens' [0, 0, 1] = 1 \<and> elem dens' [0, 1, 1] = 11"
    using d(1,2) h4 vals by (intro exI [of _ dens']) simp
  from absent neutral_density_replaced [OF h1 h2 h3 h4 h5, of fluid_file]
  have 2: "replace_neutral_density fluid_file (find_D0 ?labels) ?dens = Inr (?dens, False)"
    by blast
  from h2 1 2 show ?thesis
    by blast
qed

text \<open>
  C6, as the specification states it, fails: in the file whose two records both give the
  label \<^verbatim>\<open>D0\<close>, the label is at index 0 and \<^verbatim>\<open>dab2\<close> is present, with 500 at \<open>[0, 0]\<close> of
  the cropped field, and after the load the density at \<open>[0, 0, 0]\<close> is still the 0 that
  \<^verbatim>\<open>na\<close> holds there.
\<close>

theorem first_D0_slice_counterexample:
  "\<not> isl (fst (load_solps_from_balance spec_collaborators (world_of duplicate_D0_file) ''balance.nc'' False))
   \<and> species_list (projr (fst (load_solps_from_balance spec_collaborators (world_of duplicate_D0_file) ''balance.nc'' False)))
       = [''D0'', ''D0'']
   \<and> \<not> Option.is_none (variables duplicate_D0_file ''dab2'')
   \<and> elem (projr (crop_first (the (variables duplicate_D0_file ''dab2'')))) [0, 0] = 500
   \<and> elem (projr (bindE (get_var duplicate_D0_file ''na'') rearrange)) [0, 0, 0] = 0
   \<and> elem (species_density (projr (fst (load_solps_from_balance spec_collaborators (world_of duplicate_D0_file) ''balance.nc'' False)))) [0, 0, 0]
       = 0"
  by code_simp

lemma no_D0_and_dab2_raises:
  assumes "''D0'' \<notin> set labels" "variables f ''dab2'' \<noteq> None"
  shows "isl (replace_neutral_density f (find_D0 labels) dens)"
  using assms
  by (auto simp: replace_neutral_density_def find_D0_absent bindE_def split: sum.splits)

text \<open>
  C7 on a file whose labels are D1 and D2 and which holds \<^verbatim>\<open>dab2\<close>: no label is \<^verbatim>\<open>D0\<close>,
  \<open>D0_indx\<close> is never assigned, and the load ends with \<^verbatim>\<open>UnboundLocalError\<close> at its first
  use in line 134.
\<close>

theorem missing_D0_with_dab2_raises:
  "load_species no_D0_file = Inr [''D1'', ''D2'']
   \<and> find_D0 [''D1'', ''D2''] = None
   \<and> \<not> Option.is_none (variables no_D0_file ''dab2'')
   \<and> isl (fst (load_solps_from_balance spec_collaborators (world_of no_D0_file) ''balance.nc'' False))
   \<and> projl (fst (load_solps_from_balance spec_collaborators (world_of no_D0_file) ''balance.nc'' False))
       = UnboundLocalError ''D0_indx''"
  by code_simp


section \<open>The choice of the radiated-power branch\<close>

lemma load_fields_at_estimator:
  assumes "load_mesh_electrons C f = Inr g" and "load_species f = Inr labels"
    and "get_var f ''na'' = Inr na" and "rearrange na = Inr tmp"
    and "inside_outside C (g_mesh g) (ones (num_tris C (g_mesh g))) = Inr io"
    and "replace_neutral_density f (find_D0 labels) tmp = Inr (dens', eirene_run)"
  shows "map_sum id total_rad (load_fields C f) = total_radiated_power f (g_vol g) eirene_run"
  using assms
  by (cases "total_radiated_power f (g_vol g) eirene_run") (simp_all add: load_fields_def)

text \<open>
  C1, as the code has it.  On every load that reaches the radiated-power calculation, the
  flag \<^verbatim>\<open>eirene_run\<close> says whether \<^verbatim>\<open>dab2\<close> is in the file, and the outcome of the
  calculation (the array stored as total radiated power, or the exception) is that of the
  coupled branch when \<^verbatim>\<open>dab2\<close> is in the file and that of the fluid-only branch when it is
  not.  With \<^verbatim>\<open>dab2\<close> removed from a file, the neutral-density step leaves the density as
  it is and clears the flag.
\<close>

theorem branch_selected_by_dab2:
  assumes "files w p = Some f"
    and "load_mesh_electrons C f = Inr g" and "load_species f = Inr labels"
    and "get_var f ''na'' = Inr na" and "rearrange na = Inr tmp"
    and "inside_outside C (g_mesh g) (ones (num_tris C (g_mesh g))) = Inr io"
    and "replace_neutral_density f (find_D0 labels) tmp = Inr (dens', eirene_run)"
  shows "eirene_run = (variables f ''dab2'' \<noteq> None)
       \<and> map_sum id total_rad (fst (load_solps_from_balance C w p d))
           = (if variables f ''dab2'' \<noteq> None then coupled_total_rad f (g_vol g)
              else fluid_total_rad f (g_vol g))
       \<and> (\<forall>D0_indx dens.
            replace_neutral_density (f\<lparr>variables := (variables f)(''dab2'' := None)\<rparr>) D0_indx dens
              = Inr (dens, False))"
proof (intro conjI allI)
  from assms(7) show flag: "eirene_run = (variables f ''dab2'' \<noteq> None)"
    by (rule replace_flag)
  from assms have "map_sum id total_rad (fst (load_solps_from_balance C w p d))
      = total_radiated_power f (g_vol g) eirene_run"
    by (simp add: load_result load_fields_at_estimator)
  with flag show "map_sum id total_rad (fst (load_solps_from_balance C w p d))
           = (if variables f ''dab2'' \<noteq> None then coupled_total_rad f (g_vol g)
              else fluid_total_rad f (g_vol g))"
    by (simp add: total_radiated_power_def)
next
  fix D0_indx dens
  show "replace_neutral_density (f\<lparr>variables := (variables f)(''dab2'' := None)\<rparr>) D0_indx dens
      = Inr (dens, False)"
    by (simp add: no_dab2_density_unchanged)
qed

lemma reaches_estimator_example:
  fixes f :: netcdf_file
  assumes "\<not> isl (load_mesh_electrons spec_collaborators f)"
    and "\<not> isl (bindE (get_var f ''na'') rearrange)"
    and "\<not> isl (replace_neutral_density f (find_D0 [''D0'', ''D1''])
                  (projr (bindE (get_var f ''na'') rearrange)))"
  shows "\<exists>g na tmp dens' eirene_run.
      load_mesh_electrons spec_collaborators f = Inr g
      \<and> get_var f ''na'' = Inr na \<and> rearrange na = Inr tmp
      \<and> inside_outside spec_collaborators (g_mesh g) (ones (num_tris spec_collaborators (g_mesh g)))
          = Inr (ones (num_tris spec_collaborators (g_mesh g)))
      \<and> replace_neutral_density f (find_D0 [''D0'', ''D1'']) tmp = Inr (dens', eirene_run)"
proof -
  from assms(1) obtain g where g: "load_mesh_electrons spec_collaborators f = Inr g"
    by (cases "load_mesh_electrons spec_collaborators f") simp_all
  from assms(2) obtain na where na: "get_var f ''na'' = Inr na"
    by (cases "get_var f ''na''") simp_all
  with assms(2) obtain tmp where tmp: "rearrange na = Inr tmp"
    by (cases "rearrange na") simp_all
  with na assms(3) obtain r where "replace_neutral_density f (find_D0 [''D0'', ''D1'']) tmp = Inr r"
    by (cases "replace_neutral_density f (find_D0 [''D0'', ''D1'']) tmp") simp_all
  with g na tmp show ?thesis
    by (cases r) (simp add: spec_collaborators_def)
qed

text \<open>C1 on the coupled file (coupled branch) and on the fluid file (fluid-only
  branch).\<close>

theorem branch_selected_by_dab2_witness:
  "variables coupled_file ''dab2'' \<noteq> None \<and> variables fluid_file ''dab2'' = None
   \<and> (\<exists>g. load_mesh_electrons spec_collaborators coupled_file = Inr g
        \<and> map_sum id total_rad
            (fst (load_solps_from_balance spec_collaborators (world_of coupled_file) ''balance.nc'' False))
          = coupled_total_rad coupled_file (g_vol g))
   \<and> (\<exists>g. load_mesh_electrons spec_collaborators fluid_file = Inr g
        \<and> map_sum id total_rad
            (fst (load_solps_from_balance spec_collaborators (world_of fluid_file) ''balance.nc'' False))
          = fluid_total_rad fluid_file (g_vol g))"
proof -
  let ?C = spec_collaborators
  have dab2: "variables coupled_file ''dab2'' \<noteq> None" "variables fluid_file ''dab2'' = None"
    by (simp_all add: coupled_file_def fluid_file_def)
  have there: "files (world_of coupled_file) ''balance.nc'' = Some coupled_file"
    "files (world_of fluid_file) ''balance.nc'' = Some fluid_file"
    by (simp_all add: world_of_def)
  have labels: "load_species coupled_file = Inr [''D0'', ''D1'']"
    "load_species fluid_file = Inr [''D0'', ''D1'']"
    by code_simp+
  have "\<not> isl (load_mesh_electrons ?C coupled_file)"
    and "\<not> isl (bindE (get_var coupled_file ''na'') rearrange)"
    and "\<not> isl (replace_neutral_density coupled_file (find_D0 [''D0'', ''D1''])
                  (projr (bindE (get_var coupled_file ''na'') rearrange)))"
    by code_simp+
  then obtain g na tmp dens' eirene_run where c:
    "load_mesh_electrons ?C coupled_file = Inr g"
    "get_var coupled_file ''na'' = Inr na" "rearrange na = Inr tmp"
    "inside_outside ?C (g_mesh g) (ones (num_tris ?C (g_mesh g))) = Inr (ones (num_tris ?C (g_mesh g)))"
    "replace_neutral_density coupled_file (find_D0 [''D0'', ''D1'']) tmp = Inr (dens', eirene_run)"
    using reaches_estimator_example [of coupled_file] by blast
  from dab2(1) branch_selected_by_dab2 [OF there(1) c(1) labels(1) c(2) c(3) c(4) c(5), of False]
  have "map_sum id total_rad
      (fst (load_solps_from_balance ?C (world_of coupled_file) ''balance.nc'' False))
      = coupled_total_rad coupled_file (g_vol g)"
    by simp
  with c(1) have 1: "\<exists>g. load_mesh_electrons ?C coupled_file = Inr g
        \<and> map_sum id total_rad
            (fst (load_solps_from_balance ?C (world_of coupled_file) ''balance.nc'' False))
          = coupled_total_rad coupled_file (g_vol g)"
    by blast
  have "\<not> isl (load_mesh_electrons ?C fluid_file)"
    and "\<not> isl (bindE (get_var fluid_file ''na'') rearrange)"
    and "\<not> isl (replace_neutral_density fluid_file (find_D0 [''D0'', ''D1''])
                  (projr (bindE (get_var fluid_file ''na'') rearrange)))"
    by code_simp+
  then obtain g' na' tmp' dens'' eirene_run' where f:
    "load_mesh_electrons ?C fluid_file = Inr g'"
    "get_var fluid_file ''na'' = Inr na'" "rearrange na' = Inr tmp'"
    "inside_outside ?C (g_mesh g') (ones (num_tris ?C (g_mesh g'))) = Inr (ones (num_tris ?C (g_mesh g')))"
    "replace_neutral_density fluid_file (find_D0 [''D0'', ''D1'']) tmp' = Inr (dens'', eirene_run')"
    using reaches_estimator_example [of fluid_file] by blast
  from dab2(2) branch_selected_by_dab2 [OF there(2) f(1) labels(2) f(2) f(3) f(4) f(5), of False]
  have "map_sum id total_rad
      (fst (load_solps_from_balance ?C (world_of fluid_file) ''balance.nc'' False))
      = fluid_total_rad fluid_file (g_vol g')"
    by simp
  with f(1) have 2: "\<exists>g. load_mesh_electrons ?C fluid_file = Inr g
        \<and> map_sum id total_rad
            (fst (load_solps_from_balance ?C (world_of fluid_file) ''balance.nc'' False))
          = fluid_total_rad fluid_file (g_vol g)"
    by blast
  from dab2 1 2 show ?thesis
    by blast
qed

text \<open>
  C1, as the specification states it, fails: the coupled file loads; with the single
  variable \<^verbatim>\<open>eirene_mc_eael_she_bal\<close> removed from it the load does not complete, it ends
  with \<^verbatim>\<open>UnboundLocalError\<close> for \<open>eirene_ecoolrate\<close>, which only the coupled branch reads,
  although the fluid-only branch would have completed on that file.
\<close>

theorem one_coupled_field_removed_counterexample:
  "\<not> isl (fst (load_solps_from_balance spec_collaborators (world_of coupled_file) ''balance.nc'' False))
   \<and> Option.is_none (variables no_eael_file ''eirene_mc_eael_she_bal'')
   \<and> \<not> Option.is_none (variables no_eael_file ''dab2'')
   \<and> \<not> Option.is_none (variables no_eael_file ''eirene_mc_papl_sna_bal'')
   \<and> isl (fst (load_solps_from_balance spec_collaborators (world_of no_eael_file) ''balance.nc'' False))
   \<and> projl (fst (load_solps_from_balance spec_collaborators (world_of no_eael_file) ''balance.nc'' False))
       = UnboundLocalError ''eirene_ecoolrate''
   \<and> \<not> isl (fluid_total_rad no_eael_file (the (variables no_eael_file ''vol'')))"
  by code_simp

end
